theory Spec2Isabelle
  imports Main "HOL-Library.List_Lexorder" "HOL-Library.Char_ord" "HOL-Library.Multiset"
begin

section \<open>Python values, exceptions and the runtime\<close>

text \<open>
  The settings store keeps values of type \<open>Any\<close>. The model covers the values that
  \<open>json.load\<close> delivers, except floats: \<open>None\<close>, booleans, integers, strings, lists and
  dictionaries with string keys. A dictionary is an association list in insertion order,
  as a Python \<open>dict\<close> is.
\<close>

datatype pyvalue =
    PyNone
  | PyBool bool
  | PyInt int
  | PyStr string
  | PyList "pyvalue list"
  | PyDict "(string \<times> pyvalue) list"

type_synonym pydict = "(string \<times> pyvalue) list"

text \<open>Truth value testing, as \<open>if last_dir and ...\<close> applies it.\<close>

fun truthy :: "pyvalue \<Rightarrow> bool" where
  "truthy PyNone = False"
| "truthy (PyBool b) = b"
| "truthy (PyInt n) = (n \<noteq> 0)"
| "truthy (PyStr s) = (s \<noteq> [])"
| "truthy (PyList xs) = (xs \<noteq> [])"
| "truthy (PyDict kvs) = (kvs \<noteq> [])"

text \<open>
  The exceptions the modelled code can meet. \<open>IOError\<close> is an alias of \<open>OSError\<close>;
  \<open>PermissionError\<close>, \<open>FileNotFoundError\<close> and \<open>NotADirectoryError\<close> are subclasses of it.
  \<open>json.JSONDecodeError\<close> and \<open>UnicodeDecodeError\<close> are subclasses of \<open>ValueError\<close>, and
  neither is a subclass of the other. The string is \<open>str(e)\<close>.
\<close>

datatype py_exception =
    JSONDecodeError string
  | UnicodeDecodeError string
  | TypeError string
  | OverflowError string
  | AttributeError string
  | RecursionError string
  | OSError string
  | PermissionError string
  | FileNotFoundError string
  | NotADirectoryError string

fun is_OSError :: "py_exception \<Rightarrow> bool" where
  "is_OSError (OSError m) = True"
| "is_OSError (PermissionError m) = True"
| "is_OSError (FileNotFoundError m) = True"
| "is_OSError (NotADirectoryError m) = True"
| "is_OSError e = False"

fun is_JSONDecodeError :: "py_exception \<Rightarrow> bool" where
  "is_JSONDecodeError (JSONDecodeError m) = True"
| "is_JSONDecodeError e = False"

fun is_PermissionError :: "py_exception \<Rightarrow> bool" where
  "is_PermissionError (PermissionError m) = True"
| "is_PermissionError e = False"

fun exception_str :: "py_exception \<Rightarrow> string" where
  "exception_str (JSONDecodeError m) = m"
| "exception_str (UnicodeDecodeError m) = m"
| "exception_str (TypeError m) = m"
| "exception_str (OverflowError m) = m"
| "exception_str (AttributeError m) = m"
| "exception_str (RecursionError m) = m"
| "exception_str (OSError m) = m"
| "exception_str (PermissionError m) = m"
| "exception_str (FileNotFoundError m) = m"
| "exception_str (NotADirectoryError m) = m"

text \<open>
  What the program asks of the interpreter, the standard library and the disk is a
  parameter of the model: a \<open>runtime\<close> is a snapshot of the answers at the moment of a
  call. The theorems below hold for every runtime.

  \<^item> \<open>module_file\<close> is \<open>__file__\<close> of \<open>settings.py\<close>, \<open>path_parent\<close> is \<open>Path.parent\<close>,
    \<open>path_div\<close> is the operator \<open>/\<close> of \<open>pathlib\<close>;
  \<^item> \<open>path_exists\<close> is \<open>Path.exists\<close>;
  \<^item> \<open>json_read p\<close> is the outcome of \<open>open(p, 'r', encoding='utf-8')\<close> followed by
    \<open>json.load\<close>: an exception, or the value of the JSON text, which need not be an
    object;
  \<^item> \<open>json_write p d\<close> is the outcome of \<open>open(p, 'w', encoding='utf-8')\<close> followed by
    \<open>json.dump(d, f, indent=2)\<close>: \<open>None\<close> when both succeed;
  \<^item> \<open>isdir\<close>, \<open>isfile\<close>, \<open>path_join\<close> and \<open>splitext\<close> are the functions of \<open>os.path\<close> on
    strings, \<open>listdir\<close> is \<open>os.listdir\<close>, and \<open>lower\<close> is \<open>str.lower\<close>;
  \<^item> \<open>isdir_fd n\<close> is \<open>os.path.isdir\<close> on the integer \<open>n\<close>, which \<open>os.stat\<close> reads as a
    file descriptor.
\<close>

record runtime =
  module_file :: string
  path_parent :: "string \<Rightarrow> string"
  path_div :: "string \<Rightarrow> string \<Rightarrow> string"
  path_exists :: "string \<Rightarrow> bool"
  json_read :: "string \<Rightarrow> py_exception + pyvalue"
  json_write :: "string \<Rightarrow> pyvalue \<Rightarrow> py_exception option"
  isdir :: "string \<Rightarrow> bool"
  isdir_fd :: "int \<Rightarrow> py_exception + bool"
  isfile :: "string \<Rightarrow> bool"
  listdir :: "string \<Rightarrow> py_exception + string list"
  path_join :: "string \<Rightarrow> string \<Rightarrow> string"
  splitext :: "string \<Rightarrow> string \<times> string"
  lower :: "string \<Rightarrow> string"

text \<open>
  \<open>os.path.isdir\<close> hands its argument to \<open>os.stat\<close> and catches \<open>OSError\<close> and
  \<open>ValueError\<close> only. \<open>os.stat\<close> takes a string or an integer; for any other argument it
  raises \<open>TypeError\<close>, which \<open>os.path.isdir\<close> lets through.
\<close>

fun os_path_isdir :: "runtime \<Rightarrow> pyvalue \<Rightarrow> py_exception + bool" where
  "os_path_isdir rt (PyStr s) = Inr (isdir rt s)"
| "os_path_isdir rt (PyInt n) = isdir_fd rt n"
| "os_path_isdir rt (PyBool b) = isdir_fd rt (if b then 1 else 0)"
| "os_path_isdir rt PyNone =
     Inl (TypeError ''stat: path should be string, bytes, os.PathLike or integer, not NoneType'')"
| "os_path_isdir rt (PyList xs) =
     Inl (TypeError ''stat: path should be string, bytes, os.PathLike or integer, not list'')"
| "os_path_isdir rt (PyDict kvs) =
     Inl (TypeError ''stat: path should be string, bytes, os.PathLike or integer, not dict'')"

text \<open>
  The effects of the process that the claims speak of: the lines printed, the files
  opened for reading, and the values handed to \<open>json.dump\<close> with the file they were
  meant for (a save that was attempted, whether or not it succeeded).
\<close>

record process_io =
  stdout :: "string list"
  files_read :: "string list"
  save_attempts :: "(string \<times> pyvalue) list"

section \<open>The settings store (src/utils/settings.py)\<close>

definition DEFAULT_SETTINGS_FILE :: string where
  "DEFAULT_SETTINGS_FILE = ''app_settings.json''"

text \<open>
  An instance after \<open>__init__\<close> has the attributes \<open>_settings_file\<close> and \<open>_settings\<close>. The
  flag \<open>_initialized\<close> is the constructor of \<open>instance_state\<close>: an instance that \<open>__new__\<close>
  has just created has the flag \<open>False\<close> and no other attribute. \<open>_settings\<close> is annotated
  \<open>dict[str, Any]\<close>, and \<open>_load_settings\<close> assigns to it whatever \<open>json.load\<close> returns: the
  field \<open>settings_data\<close> holds any value.
\<close>

record settings_obj =
  settings_file :: string
  settings_data :: pyvalue

text \<open>The name of the type of a value, as error messages print it.\<close>

fun type_name :: "pyvalue \<Rightarrow> string" where
  "type_name PyNone = ''NoneType''"
| "type_name (PyBool b) = ''bool''"
| "type_name (PyInt n) = ''int''"
| "type_name (PyStr s) = ''str''"
| "type_name (PyList xs) = ''list''"
| "type_name (PyDict kvs) = ''dict''"

datatype instance_state = Uninitialized | Initialized settings_obj

definition project_root :: "runtime \<Rightarrow> string" where
  "project_root rt = path_parent rt (path_parent rt (path_parent rt (module_file rt)))"

definition get_settings_path :: "runtime \<Rightarrow> string" where
  "get_settings_path rt = path_div rt (project_root rt) DEFAULT_SETTINGS_FILE"

text \<open>
  \<open>_load_settings\<close>: the result is the exception that leaves the method, if any, with the
  instance and the effects as they are at that moment.
\<close>

definition load_settings ::
  "runtime \<Rightarrow> settings_obj \<Rightarrow> process_io \<Rightarrow> py_exception option \<times> settings_obj \<times> process_io" where
  "load_settings rt self io =
     (if path_exists rt (settings_file self) then
        (let io' = io\<lparr>files_read := files_read io @ [settings_file self]\<rparr> in
         case json_read rt (settings_file self) of
           Inr v \<Rightarrow> (None, self\<lparr>settings_data := v\<rparr>, io')
         | Inl e \<Rightarrow>
             if is_JSONDecodeError e \<or> is_OSError e
             then (None, self\<lparr>settings_data := PyDict []\<rparr>, io')
             else (Some e, self, io'))
      else (None, self\<lparr>settings_data := PyDict []\<rparr>, io))"

definition save_settings ::
  "runtime \<Rightarrow> settings_obj \<Rightarrow> process_io \<Rightarrow> py_exception option \<times> process_io" where
  "save_settings rt self io =
     (let io' = io\<lparr>save_attempts := save_attempts io @ [(settings_file self, settings_data self)]\<rparr> in
      case json_write rt (settings_file self) (settings_data self) of
        None \<Rightarrow> (None, io')
      | Some e \<Rightarrow>
          if is_OSError e
          then (None, io'\<lparr>stdout := stdout io' @ [''Warning: Could not save settings: '' @ exception_str e]\<rparr>)
          else (Some e, io'))"

text \<open>
  \<open>get\<close>: \<open>self._settings.get(key, default)\<close>. Of the values of the model only a
  dictionary has an attribute \<open>get\<close>.
\<close>

definition get :: "settings_obj \<Rightarrow> string \<Rightarrow> pyvalue \<Rightarrow> py_exception + pyvalue" where
  "get self key dflt =
     (case settings_data self of
        PyDict d \<Rightarrow> Inr (case map_of d key of Some v \<Rightarrow> v | None \<Rightarrow> dflt)
      | other \<Rightarrow>
          Inl (AttributeError ([CHR 0x27] @ type_name other @ [CHR 0x27] @
                 '' object has no attribute '' @ [CHR 0x27] @ ''get'' @ [CHR 0x27])))"

text \<open>
  \<open>self._settings[key] = value\<close> on a dictionary replaces the value of a key that is
  present, in place, and appends a new key at the end. On a list it raises \<open>TypeError\<close>,
  because the key is a string, and on the other values of the model because they support
  no item assignment.
\<close>

fun dict_setitem :: "pydict \<Rightarrow> string \<Rightarrow> pyvalue \<Rightarrow> pydict" where
  "dict_setitem [] key v = [(key, v)]"
| "dict_setitem ((k, w) # kvs) key v =
     (if k = key then (k, v) # kvs else (k, w) # dict_setitem kvs key v)"

definition set_value ::
  "runtime \<Rightarrow> string \<Rightarrow> pyvalue \<Rightarrow> settings_obj \<Rightarrow> process_io \<Rightarrow>
     py_exception option \<times> settings_obj \<times> process_io" where
  "set_value rt key v self io =
     (case settings_data self of
        PyDict d \<Rightarrow>
          (let self' = self\<lparr>settings_data := PyDict (dict_setitem d key v)\<rparr> in
           case save_settings rt self' io of (r, io') \<Rightarrow> (r, self', io'))
      | PyList xs \<Rightarrow>
          (Some (TypeError ''list indices must be integers or slices, not str''), self, io)
      | other \<Rightarrow>
          (Some (TypeError ([CHR 0x27] @ type_name other @ [CHR 0x27] @
                   '' object does not support item assignment'')), self, io))"

text \<open>
  \<open>get_last_directory\<close>: \<open>and\<close> evaluates \<open>os.path.isdir\<close> only when the stored value is
  truthy. The result is the value returned (the stored value itself, or the project
  root as a string) or the exception raised.
\<close>

definition get_last_directory :: "runtime \<Rightarrow> settings_obj \<Rightarrow> py_exception + pyvalue" where
  "get_last_directory rt self =
     (case get self ''last_directory'' PyNone of
        Inl e \<Rightarrow> Inl e
      | Inr last_dir \<Rightarrow>
          if truthy last_dir then
            (case os_path_isdir rt last_dir of
               Inl e \<Rightarrow> Inl e
             | Inr b \<Rightarrow> if b then Inr last_dir else Inr (PyStr (project_root rt)))
          else Inr (PyStr (project_root rt)))"

definition set_last_directory ::
  "runtime \<Rightarrow> string \<Rightarrow> settings_obj \<Rightarrow> process_io \<Rightarrow>
     py_exception option \<times> settings_obj \<times> process_io" where
  "set_last_directory rt directory self io = set_value rt ''last_directory'' (PyStr directory) self io"

text \<open>
  The class: \<open>_instance\<close> is \<open>None\<close> or the one instance, written with its identity (the
  number of the object among those \<open>super().__new__\<close> has created). \<open>objects_created\<close>
  counts those objects.
\<close>

record settings_class =
  cls_instance :: "(nat \<times> instance_state) option"
  objects_created :: nat
  class_io :: process_io

definition Settings_new :: "settings_class \<Rightarrow> nat \<times> settings_class" where
  "Settings_new cls =
     (case cls_instance cls of
        None \<Rightarrow>
          (objects_created cls,
           cls\<lparr>cls_instance := Some (objects_created cls, Uninitialized),
               objects_created := Suc (objects_created cls)\<rparr>)
      | Some (ident, s) \<Rightarrow> (ident, cls))"

text \<open>
  \<open>__init__\<close> on the instance that \<open>_instance\<close> holds. It sets \<open>_initialized\<close>, the file and
  the empty mapping before it loads, so they stay set when the load raises.
\<close>

definition Settings_init :: "runtime \<Rightarrow> settings_class \<Rightarrow> py_exception option \<times> settings_class" where
  "Settings_init rt cls =
     (case cls_instance cls of
        None \<Rightarrow> (None, cls)
      | Some (ident, Initialized self) \<Rightarrow> (None, cls)
      | Some (ident, Uninitialized) \<Rightarrow>
          (case load_settings rt \<lparr>settings_file = get_settings_path rt, settings_data = PyDict []\<rparr>
                  (class_io cls) of
             (r, self', io') \<Rightarrow>
               (r, cls\<lparr>cls_instance := Some (ident, Initialized self'), class_io := io'\<rparr>)))"

text \<open>\<open>Settings()\<close>: \<open>__new__\<close>, then \<open>__init__\<close> on what it returned.\<close>

definition Settings :: "runtime \<Rightarrow> settings_class \<Rightarrow> (py_exception + nat) \<times> settings_class" where
  "Settings rt cls =
     (case Settings_new cls of
        (ident, cls') \<Rightarrow>
          (case Settings_init rt cls' of
             (None, cls'') \<Rightarrow> (Inr ident, cls'')
           | (Some e, cls'') \<Rightarrow> (Inl e, cls'')))"

section \<open>The file import tab (src/gui/workspaces/input\_tabs/file\_import\_tab.py)\<close>

text \<open>
  An item of the list widget: its text, whether \<open>ItemIsUserCheckable\<close> is among its
  flags, and its check state (the three values of \<open>Qt.CheckState\<close>).
\<close>

datatype CheckState = Unchecked | PartiallyChecked | Checked

record list_item =
  item_text :: string
  user_checkable :: bool
  checkState :: CheckState

definition FILE_FORMATS :: "(string \<times> string list) list" where
  "FILE_FORMATS =
     [(''TIFF Images'', [''.tif'', ''.tiff'']),
      (''PNG Images'', [''.png'']),
      (''JPEG Images'', [''.jpg'', ''.jpeg'']),
      (''ND2 Images'', [''.nd2'']),
      (''All Supported'', [''.tif'', ''.tiff'', ''.png'', ''.jpg'', ''.jpeg'', ''.nd2''])]"

text \<open>
  The state of the tab that the claims speak of: \<open>_current_directory\<close>, the text of
  \<open>directory_input\<close>, the current index of \<open>format_combo\<close>, the items of \<open>file_list\<close> in
  display order, the text of \<open>selected_label\<close>, and the payloads that the signal
  \<open>files_selected\<close> has emitted, oldest first. \<open>settings\<close> is the module's global
  instance of the settings store, \<open>tab_io\<close> the effects of the process.
\<close>

record file_import_tab =
  current_directory :: string
  directory_input :: string
  format_combo :: int
  file_list :: "list_item list"
  selected_label :: string
  files_selected :: "string list list"
  settings :: settings_obj
  tab_io :: process_io

definition update_directory_display :: "file_import_tab \<Rightarrow> file_import_tab" where
  "update_directory_display st = st\<lparr>directory_input := current_directory st\<rparr>"

definition get_current_extensions :: "file_import_tab \<Rightarrow> string list" where
  "get_current_extensions st =
     (let index = format_combo st in
      if 0 \<le> index \<and> index < int (length FILE_FORMATS)
      then snd (FILE_FORMATS ! nat index)
      else [])"

text \<open>\<open>str(count)\<close> for a count that is not negative.\<close>

fun str_nat :: "nat \<Rightarrow> string" where
  "str_nat n =
     (if n < 10 then [''0123456789'' ! n]
      else str_nat (n div 10) @ [''0123456789'' ! (n mod 10)])"

declare str_nat.simps [simp del]

text \<open>
  \<open>_get_selected_count\<close> and \<open>get_selected_files\<close>: the loops over
  \<open>range(self.file_list.count())\<close>, reading \<open>self.file_list.item(i)\<close>.
\<close>

definition get_selected_count :: "file_import_tab \<Rightarrow> nat" where
  "get_selected_count st =
     fold (\<lambda>i count. if checkState (file_list st ! i) = Checked then count + 1 else count)
       [0..<length (file_list st)] 0"

definition update_selected_count :: "file_import_tab \<Rightarrow> file_import_tab" where
  "update_selected_count st =
     (let count = get_selected_count st in
      st\<lparr>selected_label :=
           ''Selected: '' @ str_nat count @ '' file'' @ (if count \<noteq> 1 then ''s'' else [])\<rparr>)"

definition get_selected_files :: "runtime \<Rightarrow> file_import_tab \<Rightarrow> string list" where
  "get_selected_files rt st =
     fold (\<lambda>i selected.
             if checkState (file_list st ! i) = Checked
             then selected @ [path_join rt (current_directory st) (item_text (file_list st ! i))]
             else selected)
       [0..<length (file_list st)] []"

definition emit_selection_changed :: "runtime \<Rightarrow> file_import_tab \<Rightarrow> file_import_tab" where
  "emit_selection_changed rt st =
     (let selected_files = get_selected_files rt st in
      st\<lparr>files_selected := files_selected st @ [selected_files]\<rparr>)"

definition on_item_changed :: "runtime \<Rightarrow> file_import_tab \<Rightarrow> file_import_tab" where
  "on_item_changed rt st = emit_selection_changed rt (update_selected_count st)"

text \<open>
  \<open>self.file_list.item(i).setCheckState(c)\<close> for an item of the list, \<open>i < count()\<close>. The
  tab connects \<open>file_list.itemChanged\<close> to \<open>_on_item_changed\<close>, and the list widget emits
  that signal when data of one of its items changes: setting the state an item already
  has changes nothing and emits nothing, setting another state runs the slot before
  \<open>setCheckState\<close> returns.
\<close>

definition setCheckState :: "runtime \<Rightarrow> nat \<Rightarrow> CheckState \<Rightarrow> file_import_tab \<Rightarrow> file_import_tab" where
  "setCheckState rt i c st =
     (if checkState (file_list st ! i) = c then st
      else on_item_changed rt
             (st\<lparr>file_list := (file_list st)[i := (file_list st ! i)\<lparr>checkState := c\<rparr>]\<rparr>))"

text \<open>
  A click of the user on the check box of item \<open>i\<close>: for an item that is user-checkable,
  the view sets the other of the two states \<open>Checked\<close> and \<open>Unchecked\<close> through the item,
  as \<open>setCheckState\<close> does.
\<close>

definition toggle_item :: "runtime \<Rightarrow> nat \<Rightarrow> file_import_tab \<Rightarrow> file_import_tab" where
  "toggle_item rt i st =
     (if i < length (file_list st) \<and> user_checkable (file_list st ! i)
      then setCheckState rt i
             (if checkState (file_list st ! i) = Checked then Unchecked else Checked) st
      else st)"



text \<open>
  \<open>_refresh_file_list\<close>. The first loop collects the names, the second adds an item for
  each name; an item is given its flags and its state before it is added to the list, so
  no \<open>itemChanged\<close> is emitted. \<open>list.sort\<close> is stable, as \<open>sort_key\<close> is, and compares
  the keys as strings.
\<close>

fun collect_files ::
  "runtime \<Rightarrow> string \<Rightarrow> string list \<Rightarrow> string list \<Rightarrow> string list \<Rightarrow> string list" where
  "collect_files rt dir extensions [] files = files"
| "collect_files rt dir extensions (filename # rest) files =
     (let filepath = path_join rt dir filename in
      if isfile rt filepath then
        (let ext = lower rt (snd (splitext rt filename)) in
         if ext \<in> set extensions
         then collect_files rt dir extensions rest (files @ [filename])
         else collect_files rt dir extensions rest files)
      else collect_files rt dir extensions rest files)"

fun add_items :: "string list \<Rightarrow> list_item list \<Rightarrow> list_item list" where
  "add_items [] items = items"
| "add_items (filename # rest) items =
     add_items rest
       (items @ [\<lparr>item_text = filename, user_checkable = True, checkState = Unchecked\<rparr>])"

text \<open>
  The result is the exception that leaves the method, if any, and the state of the tab.
  \<open>os.listdir\<close> is the only call of the \<open>try\<close> block that can raise; only a
  \<open>PermissionError\<close> is caught.
\<close>

definition refresh_file_list ::
  "runtime \<Rightarrow> file_import_tab \<Rightarrow> py_exception option \<times> file_import_tab" where
  "refresh_file_list rt st =
     (let st1 = st\<lparr>file_list := []\<rparr> in
      if \<not> isdir rt (current_directory st1) then (None, st1)
      else
        (let extensions = get_current_extensions st1 in
         case listdir rt (current_directory st1) of
           Inl e \<Rightarrow>
             if is_PermissionError e then (None, update_selected_count st1)
             else (Some e, st1)
         | Inr names \<Rightarrow>
             (let files = collect_files rt (current_directory st1) extensions names [];
                  files' = sort_key (lower rt) files;
                  st2 = st1\<lparr>file_list := add_items files' (file_list st1)\<rparr>
              in (None, update_selected_count st2))))"

text \<open>
  \<open>_on_browse_clicked\<close>, given the directory that \<open>QFileDialog.getExistingDirectory\<close>
  returned (the empty string when the dialog was cancelled).
\<close>

definition on_browse_clicked ::
  "runtime \<Rightarrow> string \<Rightarrow> file_import_tab \<Rightarrow> py_exception option \<times> file_import_tab" where
  "on_browse_clicked rt directory st =
     (if directory \<noteq> [] then
        (let st1 = st\<lparr>current_directory := directory\<rparr> in
         case set_last_directory rt directory (settings st1) (tab_io st1) of
           (r, settings', io') \<Rightarrow>
             (let st2 = st1\<lparr>settings := settings', tab_io := io'\<rparr> in
              case r of
                Some e \<Rightarrow> (Some e, st2)
              | None \<Rightarrow> refresh_file_list rt (update_directory_display st2)))
      else (None, st))"

definition on_format_changed ::
  "runtime \<Rightarrow> int \<Rightarrow> file_import_tab \<Rightarrow> py_exception option \<times> file_import_tab" where
  "on_format_changed rt index st = refresh_file_list rt st"

text \<open>
  A change of the filter: the combo box has the new current index when it emits
  \<open>currentIndexChanged\<close>, which is connected to \<open>_on_format_changed\<close>.
\<close>

definition currentIndexChanged ::
  "runtime \<Rightarrow> int \<Rightarrow> file_import_tab \<Rightarrow> py_exception option \<times> file_import_tab" where
  "currentIndexChanged rt index st = on_format_changed rt index (st\<lparr>format_combo := index\<rparr>)"

section \<open>The navigation button (src/gui/components/nav\_button.py)\<close>

definition Colors_SECONDARY :: string where "Colors_SECONDARY = ''#34495E''"

definition Colors_HOVER :: string where "Colors_HOVER = ''#2980B9''"

definition Colors_ACTIVE :: string where "Colors_ACTIVE = ''#1ABC9C''"

text \<open>
  Of the style sheet, the two properties that depend on the state: the background
  colour of the button and its background colour under the pointer.
\<close>

record nav_style =
  background_color :: string
  hover_background_color :: string

text \<open>\<open>workspace_selected\<close> holds the payloads that the signal has emitted, oldest first.\<close>

record nav_button =
  button_text :: string
  workspace_id :: string
  is_active :: bool
  style_sheet :: nav_style
  workspace_selected :: "string list"

definition update_style :: "nav_button \<Rightarrow> nav_button" where
  "update_style b =
     (if is_active b
      then b\<lparr>style_sheet :=
               \<lparr>background_color = Colors_ACTIVE, hover_background_color = Colors_ACTIVE\<rparr>\<rparr>
      else b\<lparr>style_sheet :=
               \<lparr>background_color = Colors_SECONDARY, hover_background_color = Colors_HOVER\<rparr>\<rparr>)"

definition NavButton :: "string \<Rightarrow> string \<Rightarrow> nav_button" where
  "NavButton txt wid =
     update_style
       \<lparr>button_text = txt, workspace_id = wid, is_active = False,
        style_sheet = \<lparr>background_color = [], hover_background_color = []\<rparr>,
        workspace_selected = []\<rparr>"

definition on_clicked :: "nav_button \<Rightarrow> nav_button" where
  "on_clicked b =
     (if \<not> is_active b
      then b\<lparr>workspace_selected := workspace_selected b @ [workspace_id b]\<rparr>
      else b)"

definition set_active :: "bool \<Rightarrow> nav_button \<Rightarrow> nav_button" where
  "set_active active b = update_style (b\<lparr>is_active := active\<rparr>)"

section \<open>A concrete runtime\<close>

text \<open>
  A runtime to evaluate the model on: \<open>posixpath\<close> for \<open>os.path\<close> and \<open>pathlib\<close> on
  absolute paths, \<open>str.lower\<close> on ASCII letters, and a disk given as a table from paths to
  nodes. A file node carries what reading it as JSON yields, a directory node what
  listing it yields.
\<close>

definition posix_join :: "string \<Rightarrow> string \<Rightarrow> string" where
  "posix_join a b =
     (if take 1 b = ''/'' then b
      else if a = [] \<or> last a = CHR ''/'' then a @ b
      else a @ ''/'' @ b)"

definition posix_splitext :: "string \<Rightarrow> string \<times> string" where
  "posix_splitext p =
     (let base = rev (takeWhile (\<lambda>c. c \<noteq> CHR ''/'') (rev p));
          front = rev (dropWhile (\<lambda>c. c \<noteq> CHR ''/'') (rev p));
          rext = takeWhile (\<lambda>c. c \<noteq> CHR ''.'') (rev base);
          rrest = dropWhile (\<lambda>c. c \<noteq> CHR ''.'') (rev base)
      in case rrest of
           [] \<Rightarrow> (p, [])
         | dot # rstem \<Rightarrow>
             if list_ex (\<lambda>c. c \<noteq> CHR ''.'') rstem
             then (front @ rev rstem, dot # rev rext)
             else (p, []))"

definition posix_parent :: "string \<Rightarrow> string" where
  "posix_parent p =
     (let d = rev (drop 1 (dropWhile (\<lambda>c. c \<noteq> CHR ''/'') (rev p))) in
      if d = [] then (if take 1 p = ''/'' then ''/'' else ''.'') else d)"

definition ascii_lower :: "string \<Rightarrow> string" where
  "ascii_lower s =
     map (\<lambda>c. case map_of (zip ''ABCDEFGHIJKLMNOPQRSTUVWXYZ'' ''abcdefghijklmnopqrstuvwxyz'') c of
                 Some l \<Rightarrow> l
               | None \<Rightarrow> c) s"

datatype disk_node = File "py_exception + pyvalue" | Dir "py_exception + string list"

definition posix_runtime ::
  "(string \<times> disk_node) list \<Rightarrow> (string \<Rightarrow> pyvalue \<Rightarrow> py_exception option) \<Rightarrow> runtime" where
  "posix_runtime disk write =
     \<lparr>module_file = ''/app/src/utils/settings.py'',
      path_parent = posix_parent,
      path_div = posix_join,
      path_exists = (\<lambda>p. case map_of disk p of None \<Rightarrow> False | Some n \<Rightarrow> True),
      json_read = (\<lambda>p. case map_of disk p of
                          Some (File r) \<Rightarrow> r
                        | Some (Dir l) \<Rightarrow> Inl (OSError ''[Errno 21] Is a directory'')
                        | None \<Rightarrow> Inl (FileNotFoundError ''[Errno 2] No such file or directory'')),
      json_write = write,
      isdir = (\<lambda>p. case map_of disk p of Some (Dir l) \<Rightarrow> True | _ \<Rightarrow> False),
      isdir_fd = (\<lambda>n. Inr False),
      isfile = (\<lambda>p. case map_of disk p of Some (File r) \<Rightarrow> True | _ \<Rightarrow> False),
      listdir = (\<lambda>p. case map_of disk p of
                        Some (Dir l) \<Rightarrow> l
                      | Some (File r) \<Rightarrow> Inl (NotADirectoryError ''[Errno 20] Not a directory'')
                      | None \<Rightarrow> Inl (FileNotFoundError ''[Errno 2] No such file or directory'')),
      path_join = posix_join,
      splitext = posix_splitext,
      lower = ascii_lower\<rparr>"

text \<open>
  A disk with a directory of images, a directory that may not be listed, and no settings
  file; disks whose settings file is not JSON text, is not UTF-8, is nested too deeply
  for the decoder, or holds a JSON array; and a disk that cannot be written.
\<close>

definition demo_disk :: "(string \<times> disk_node) list" where
  "demo_disk =
     [(''/data'', Dir (Inr [''b.TIF'', ''notes.txt'', ''a.png'', ''sub.png'', ''C.jpeg'', ''.png'',
                            ''a.tiff'', ''e.nd2'', ''D.JPG'', ''scan.tif.bak''])),
      (''/data/e.nd2'', File (Inl (UnicodeDecodeError ''invalid start byte''))),
      (''/data/D.JPG'', File (Inl (UnicodeDecodeError ''invalid start byte''))),
      (''/data/scan.tif.bak'', File (Inl (UnicodeDecodeError ''invalid start byte''))),
      (''/data/b.TIF'', File (Inl (JSONDecodeError ''Expecting value''))),
      (''/data/notes.txt'', File (Inl (JSONDecodeError ''Expecting value''))),
      (''/data/a.png'', File (Inl (UnicodeDecodeError ''invalid start byte''))),
      (''/data/sub.png'', Dir (Inr [])),
      (''/data/C.jpeg'', File (Inl (UnicodeDecodeError ''invalid start byte''))),
      (''/data/.png'', File (Inl (JSONDecodeError ''Expecting value''))),
      (''/data/a.tiff'', File (Inl (UnicodeDecodeError ''invalid start byte''))),
      (''/locked'', Dir (Inl (PermissionError ''[Errno 13] Permission denied''))),
      (''/app'', Dir (Inr [''src'', ''main.py'']))]"

definition broken_settings_disk :: "(string \<times> disk_node) list" where
  "broken_settings_disk =
     (''/app/app_settings.json'', File (Inl (JSONDecodeError ''Expecting value''))) # demo_disk"

definition garbled_settings_disk :: "(string \<times> disk_node) list" where
  "garbled_settings_disk =
     (''/app/app_settings.json'', File (Inl (UnicodeDecodeError ''invalid start byte''))) # demo_disk"

definition nested_settings_disk :: "(string \<times> disk_node) list" where
  "nested_settings_disk =
     (''/app/app_settings.json'',
      File (Inl (RecursionError ''maximum recursion depth exceeded while decoding a JSON array'')))
     # demo_disk"

definition array_settings_disk :: "(string \<times> disk_node) list" where
  "array_settings_disk =
     (''/app/app_settings.json'', File (Inr (PyList [PyInt 1, PyInt 2]))) # demo_disk"

definition new_class :: settings_class where
  "new_class =
     \<lparr>cls_instance = None, objects_created = 0,
      class_io = \<lparr>stdout = [], files_read = [], save_attempts = []\<rparr>\<rparr>"

definition write_ok :: "string \<Rightarrow> pyvalue \<Rightarrow> py_exception option" where
  "write_ok p d = None"

definition write_denied :: "string \<Rightarrow> pyvalue \<Rightarrow> py_exception option" where
  "write_denied p d = Some (PermissionError ''[Errno 13] Permission denied'')"

definition no_io :: process_io where
  "no_io = \<lparr>stdout = [], files_read = [], save_attempts = []\<rparr>"

definition demo_settings :: settings_obj where
  "demo_settings = \<lparr>settings_file = ''/app/app_settings.json'', settings_data = PyDict []\<rparr>"

definition demo_tab :: file_import_tab where
  "demo_tab =
     \<lparr>current_directory = ''/data'', directory_input = ''/data'', format_combo = 4,
      file_list =
        [\<lparr>item_text = ''a.png'', user_checkable = True, checkState = Checked\<rparr>,
         \<lparr>item_text = ''a.tiff'', user_checkable = True, checkState = Unchecked\<rparr>,
         \<lparr>item_text = ''b.TIF'', user_checkable = True, checkState = Checked\<rparr>],
      selected_label = ''Selected: 2 files'',
      files_selected = [],
      settings = demo_settings,
      tab_io = no_io\<rparr>"

text \<open>
  The disk as it was earlier, with a directory \<open>/gone\<close> of three images, and the tab after
  the user browsed to that directory and checked the first and the third file. On
  \<open>demo_disk\<close> the directory no longer exists.
\<close>

definition earlier_disk :: "(string \<times> disk_node) list" where
  "earlier_disk =
     [(''/gone'', Dir (Inr [''b.TIF'', ''a.png'', ''a.tiff''])),
      (''/gone/b.TIF'', File (Inl (UnicodeDecodeError ''invalid start byte''))),
      (''/gone/a.png'', File (Inl (UnicodeDecodeError ''invalid start byte''))),
      (''/gone/a.tiff'', File (Inl (UnicodeDecodeError ''invalid start byte'')))]
     @ demo_disk"

definition removed_directory_tab :: file_import_tab where
  "removed_directory_tab =
     toggle_item (posix_runtime earlier_disk write_ok) 2
       (toggle_item (posix_runtime earlier_disk write_ok) 0
          (snd (on_browse_clicked (posix_runtime earlier_disk write_ok) ''/gone'' demo_tab)))"

section \<open>The settings store: properties\<close>

lemma map_of_dict_setitem:
  "map_of (dict_setitem d key v) k = (if k = key then Some v else map_of d k)"
  by (induction d key v rule: dict_setitem.induct) auto

lemma get_mapping:
  "settings_data self = PyDict d \<Longrightarrow>
     get self key dflt = Inr (case map_of d key of Some v \<Rightarrow> v | None \<Rightarrow> dflt)"
  by (simp add: get_def)

lemma load_settings_loaded:
  "path_exists rt (settings_file self) \<Longrightarrow> json_read rt (settings_file self) = Inr v \<Longrightarrow>
     load_settings rt self io =
       (None, self\<lparr>settings_data := v\<rparr>, io\<lparr>files_read := files_read io @ [settings_file self]\<rparr>)"
  by (simp add: load_settings_def Let_def)

text \<open>
  What \<open>_load_settings\<close> catches: for a missing file, a \<open>JSONDecodeError\<close> or an \<open>OSError\<close>
  the method returns, the mapping in memory is empty, and \<open>get\<close> returns the default it
  is given.
\<close>

lemma load_settings_caught:
  assumes "\<not> path_exists rt (settings_file self) \<or>
           (\<exists>e. json_read rt (settings_file self) = Inl e \<and> (is_JSONDecodeError e \<or> is_OSError e))"
  shows "\<exists>io'. load_settings rt self io = (None, self\<lparr>settings_data := PyDict []\<rparr>, io') \<and>
           (\<forall>key dflt. get (self\<lparr>settings_data := PyDict []\<rparr>) key dflt = Inr dflt)"
  using assms by (auto simp: load_settings_def Let_def get_def)

text \<open>What it does not catch: any other exception of the load leaves the method.\<close>

lemma load_settings_raises:
  "path_exists rt (settings_file self) \<Longrightarrow> json_read rt (settings_file self) = Inl e \<Longrightarrow>
   \<not> is_JSONDecodeError e \<Longrightarrow> \<not> is_OSError e \<Longrightarrow>
     load_settings rt self io =
       (Some e, self, io\<lparr>files_read := files_read io @ [settings_file self]\<rparr>)"
  by (simp add: load_settings_def Let_def)

text \<open>
  C2. The code departs from the claim. The claim: loading never raises, and a settings
  file that is missing or is not well-formed JSON leaves an empty mapping. The code: a
  settings file that is not UTF-8 makes \<open>json.load\<close> raise \<open>UnicodeDecodeError\<close>, and one
  that opens more brackets than the decoder can nest makes it raise \<open>RecursionError\<close>;
  neither is a \<open>JSONDecodeError\<close> or an \<open>OSError\<close>, so \<open>_load_settings\<close> raises, and so does
  \<open>Settings()\<close>.
\<close>

theorem load_settings_uncaught_exceptions:
  "load_settings (posix_runtime garbled_settings_disk write_ok) demo_settings no_io =
     (Some (UnicodeDecodeError ''invalid start byte''), demo_settings,
      no_io\<lparr>files_read := [''/app/app_settings.json'']\<rparr>) \<and>
   load_settings (posix_runtime nested_settings_disk write_ok) demo_settings no_io =
     (Some (RecursionError ''maximum recursion depth exceeded while decoding a JSON array''),
      demo_settings, no_io\<lparr>files_read := [''/app/app_settings.json'']\<rparr>) \<and>
   fst (Settings (posix_runtime garbled_settings_disk write_ok) new_class) =
     Inl (UnicodeDecodeError ''invalid start byte'') \<and>
   fst (Settings (posix_runtime nested_settings_disk write_ok) new_class) =
     Inl (RecursionError ''maximum recursion depth exceeded while decoding a JSON array'')"
  by (simp add: load_settings_def Let_def posix_runtime_def garbled_settings_disk_def
      nested_settings_disk_def demo_settings_def no_io_def Settings_def Settings_new_def
      Settings_init_def new_class_def get_settings_path_def project_root_def posix_parent_def
      posix_join_def DEFAULT_SETTINGS_FILE_def)

text \<open>
  When \<open>_settings\<close> is not a dictionary, \<open>get\<close> raises \<open>AttributeError\<close> and \<open>set\<close> raises
  \<open>TypeError\<close> before any save is attempted.
\<close>

lemma get_not_mapping:
  "settings_data self = PyList xs \<Longrightarrow> (\<exists>m. get self key dflt = Inl (AttributeError m))"
  by (simp add: get_def)

lemma set_value_not_mapping:
  "settings_data self = PyList xs \<Longrightarrow>
     set_value rt key v self io =
       (Some (TypeError ''list indices must be integers or slices, not str''), self, io)"
  by (simp add: set_value_def)

text \<open>
  C7. On an instance whose \<open>_settings\<close> is a mapping, \<open>set\<close> stores the value and hands the
  whole mapping, with the new value in it, to the save; whatever the save does, every
  \<open>get\<close> of the key on the instance then returns the new value. When the save raises an
  \<open>OSError\<close>, \<open>set\<close> returns normally and the warning is printed. The value stays visible
  after a later \<open>set\<close> of another key.
\<close>

theorem set_value_save_failure_not_fatal:
  "case set_value rt key v (self\<lparr>settings_data := PyDict d\<rparr>) io of (r, self', io') \<Rightarrow>
     save_attempts io' = save_attempts io @ [(settings_file self, settings_data self')] \<and>
     settings_data self' = PyDict (dict_setitem d key v) \<and>
     (\<forall>dflt. get self' key dflt = Inr v) \<and>
     (\<forall>rt2 k2 v2 io2 dflt. k2 \<noteq> key \<longrightarrow>
        get (fst (snd (set_value rt2 k2 v2 self' io2))) key dflt = Inr v) \<and>
     (\<forall>e. json_write rt (settings_file self) (settings_data self') = Some e \<and> is_OSError e \<longrightarrow>
        r = None \<and>
        stdout io' = stdout io @ [''Warning: Could not save settings: '' @ exception_str e])"
  by (auto simp: set_value_def save_settings_def Let_def get_def map_of_dict_setitem
      split: option.splits)

theorem set_value_save_failure_witness:
  "\<exists>self' io'.
     set_value (posix_runtime demo_disk write_denied) ''last_directory'' (PyStr ''/data'')
       demo_settings no_io = (None, self', io') \<and>
     save_attempts io' =
       [(''/app/app_settings.json'', PyDict [(''last_directory'', PyStr ''/data'')])] \<and>
     stdout io' = [''Warning: Could not save settings: [Errno 13] Permission denied''] \<and>
     get self' ''last_directory'' PyNone = Inr (PyStr ''/data'')"
proof -
  let ?rt = "posix_runtime demo_disk write_denied"
  have ds: "demo_settings\<lparr>settings_data := PyDict []\<rparr> = demo_settings"
    by (simp add: demo_settings_def)
  obtain r self' io' where
    eq: "set_value ?rt ''last_directory'' (PyStr ''/data'') demo_settings no_io = (r, self', io')"
    by (cases "set_value ?rt ''last_directory'' (PyStr ''/data'') demo_settings no_io") auto
  have w: "json_write ?rt (settings_file demo_settings) (settings_data self') =
             Some (PermissionError ''[Errno 13] Permission denied'')"
    by (simp add: posix_runtime_def write_denied_def)
  from set_value_save_failure_not_fatal
         [where rt = ?rt and key = "''last_directory''" and v = "PyStr ''/data''"
            and self = demo_settings and d = "[]" and io = no_io] eq w
  have "r = None"
    and "save_attempts io' =
           [(''/app/app_settings.json'', PyDict [(''last_directory'', PyStr ''/data'')])]"
    and "stdout io' = [''Warning: Could not save settings: [Errno 13] Permission denied'']"
    and "get self' ''last_directory'' PyNone = Inr (PyStr ''/data'')"
    by (auto simp: ds demo_settings_def no_io_def)
  with eq show ?thesis by blast
qed

text \<open>
  C3, as amended. When \<open>_settings\<close> is a mapping and the value stored under
  \<open>last_directory\<close> is a string, or is falsy, or the key is absent, \<open>get_last_directory\<close>
  returns the stored value if it is a non-empty string that \<open>os.path.isdir\<close> accepts, and
  the project root otherwise.
\<close>

theorem get_last_directory_string_or_falsy:
  assumes "settings_data self = PyDict d"
    and "case map_of d ''last_directory'' of
           None \<Rightarrow> True
         | Some v \<Rightarrow> (\<exists>s. v = PyStr s) \<or> \<not> truthy v"
  shows "get_last_directory rt self =
           Inr (case map_of d ''last_directory'' of
                  Some (PyStr s) \<Rightarrow>
                    if s \<noteq> [] \<and> isdir rt s then PyStr s else PyStr (project_root rt)
                | _ \<Rightarrow> PyStr (project_root rt))"
  using assms
  by (auto simp: get_last_directory_def get_def split: option.splits pyvalue.splits)

theorem get_last_directory_witness:
  "get_last_directory (posix_runtime demo_disk write_ok)
     (demo_settings\<lparr>settings_data := PyDict [(''last_directory'', PyStr ''/data'')]\<rparr>) =
     Inr (PyStr ''/data'') \<and>
   get_last_directory (posix_runtime demo_disk write_ok)
     (demo_settings\<lparr>settings_data := PyDict [(''last_directory'', PyStr ''/gone'')]\<rparr>) =
     Inr (PyStr ''/app'') \<and>
   get_last_directory (posix_runtime demo_disk write_ok)
     (demo_settings\<lparr>settings_data := PyDict [(''last_directory'', PyStr [])]\<rparr>) =
     Inr (PyStr ''/app'') \<and>
   get_last_directory (posix_runtime demo_disk write_ok) demo_settings = Inr (PyStr ''/app'')"
proof -
  let ?rt = "posix_runtime demo_disk write_ok"
  let ?da = "[(''last_directory'', PyStr ''/data'')]"
  let ?db = "[(''last_directory'', PyStr ''/gone'')]"
  let ?dc = "[(''last_directory'', PyStr [])]"
  have root: "project_root ?rt = ''/app''"
    by (simp add: project_root_def posix_runtime_def posix_parent_def)
  have da: "isdir ?rt ''/data''" and db: "\<not> isdir ?rt ''/gone''"
    by (simp_all add: posix_runtime_def demo_disk_def)
  have sa: "settings_data (demo_settings\<lparr>settings_data := PyDict ?da\<rparr>) = PyDict ?da"
    and sb: "settings_data (demo_settings\<lparr>settings_data := PyDict ?db\<rparr>) = PyDict ?db"
    and sc: "settings_data (demo_settings\<lparr>settings_data := PyDict ?dc\<rparr>) = PyDict ?dc"
    and sd: "settings_data demo_settings = PyDict []"
    by (simp_all add: demo_settings_def)
  have ha: "case map_of ?da ''last_directory'' of
              None \<Rightarrow> True | Some v \<Rightarrow> (\<exists>s. v = PyStr s) \<or> \<not> truthy v"
    and hb: "case map_of ?db ''last_directory'' of
              None \<Rightarrow> True | Some v \<Rightarrow> (\<exists>s. v = PyStr s) \<or> \<not> truthy v"
    and hc: "case map_of ?dc ''last_directory'' of
              None \<Rightarrow> True | Some v \<Rightarrow> (\<exists>s. v = PyStr s) \<or> \<not> truthy v"
    and hd: "case map_of ([] :: pydict) ''last_directory'' of
              None \<Rightarrow> True | Some v \<Rightarrow> (\<exists>s. v = PyStr s) \<or> \<not> truthy v"
    by simp_all
  from get_last_directory_string_or_falsy [OF sa ha, where rt = ?rt]
       get_last_directory_string_or_falsy [OF sb hb, where rt = ?rt]
       get_last_directory_string_or_falsy [OF sc hc, where rt = ?rt]
       get_last_directory_string_or_falsy [OF sd hd, where rt = ?rt]
  show ?thesis
    by (simp add: root da db)
qed

text \<open>
  C3, as stated, fails for a stored value that is a non-empty list: \<open>os.path.isdir\<close>
  raises \<open>TypeError\<close>, and \<open>get_last_directory\<close> returns neither the stored value nor the
  project root.
\<close>

theorem get_last_directory_list_counterexample:
  "get_last_directory (posix_runtime demo_disk write_ok)
     \<lparr>settings_file = ''/app/app_settings.json'',
      settings_data = PyDict [(''last_directory'', PyList [PyStr ''/data''])]\<rparr> =
   Inl (TypeError ''stat: path should be string, bytes, os.PathLike or integer, not list'')"
  by (simp add: get_last_directory_def get_def)

text \<open>
  A settings file that holds well-formed JSON other than an object, here an array, is
  loaded as it is; the key is absent, and \<open>get_last_directory\<close> raises \<open>AttributeError\<close>
  instead of returning the project root.
\<close>

lemma get_last_directory_not_mapping:
  "settings_data self = PyList xs \<Longrightarrow> (\<exists>m. get_last_directory rt self = Inl (AttributeError m))"
  by (simp add: get_last_directory_def get_def)

lemma get_last_directory_array_file:
  "\<exists>self io' m.
     load_settings (posix_runtime array_settings_disk write_ok) demo_settings no_io =
       (None, self, io') \<and>
     settings_data self = PyList [PyInt 1, PyInt 2] \<and>
     get_last_directory (posix_runtime array_settings_disk write_ok) self = Inl (AttributeError m)"
  by (simp add: load_settings_def Let_def posix_runtime_def array_settings_disk_def
      demo_settings_def get_last_directory_def get_def)

text \<open>
  C9. After any call of \<open>Settings()\<close>, whether it returned or raised, the class holds one
  initialized instance; a call that returned, returned that instance; and every further
  call, on any disk, returns the same instance and leaves the class, the instance, its
  mapping and the record of the files read as they were.
\<close>

theorem Settings_singleton:
  "case Settings rt1 cls of (r1, cls1) \<Rightarrow>
     (\<exists>ident self. cls_instance cls1 = Some (ident, Initialized self) \<and>
        (r1 = Inr ident \<or> (\<exists>e. r1 = Inl e)) \<and>
        Settings rt2 cls1 = (Inr ident, cls1))"
  by (auto simp: Settings_def Settings_new_def Settings_init_def
      split: option.splits prod.splits instance_state.splits)

section \<open>The navigation button: properties\<close>

text \<open>
  C10. A click appends the button's \<open>workspace_id\<close> to the emitted signals when the button
  is not active and changes nothing when it is active; so the signal is emitted if and
  only if the button is not active at the click, also right after \<open>set_active\<close>.
\<close>

theorem on_clicked_emits_iff_inactive:
  "on_clicked b =
     (if is_active b then b
      else b\<lparr>workspace_selected := workspace_selected b @ [workspace_id b]\<rparr>) \<and>
   ((workspace_selected (on_clicked b) = workspace_selected b @ [workspace_id b]) = (\<not> is_active b)) \<and>
   ((workspace_selected (on_clicked b) = workspace_selected b) = is_active b) \<and>
   workspace_selected (on_clicked (set_active True b)) = workspace_selected b \<and>
   workspace_selected (on_clicked (set_active False b)) = workspace_selected b @ [workspace_id b]"
  by (auto simp: on_clicked_def set_active_def update_style_def)

section \<open>The file import tab: properties\<close>

lemma fold_index_filter_map:
  "n \<le> length xs \<Longrightarrow>
   fold (\<lambda>i acc. if P (xs ! i) then acc @ [g (xs ! i)] else acc) [0..<n] [] =
     map g (filter P (take n xs))"
proof (induction n)
  case 0
  then show ?case by simp
next
  case (Suc n)
  then have "n < length xs" by simp
  then have "take (Suc n) xs = take n xs @ [xs ! n]"
    by (simp add: take_Suc_conv_app_nth)
  with Suc show ?case by simp
qed

lemma fold_index_count:
  "n \<le> length xs \<Longrightarrow>
   fold (\<lambda>i (count::nat). if P (xs ! i) then count + 1 else count) [0..<n] 0 =
     length (filter P (take n xs))"
proof (induction n)
  case 0
  then show ?case by simp
next
  case (Suc n)
  then have "n < length xs" by simp
  then have "take (Suc n) xs = take n xs @ [xs ! n]"
    by (simp add: take_Suc_conv_app_nth)
  with Suc show ?case by simp
qed

lemma get_selected_files_eq:
  "get_selected_files rt st =
     map (\<lambda>it. path_join rt (current_directory st) (item_text it))
       (filter (\<lambda>it. checkState it = Checked) (file_list st))"
  using fold_index_filter_map [of "length (file_list st)" "file_list st"
      "\<lambda>it. checkState it = Checked" "\<lambda>it. path_join rt (current_directory st) (item_text it)"]
  by (simp add: get_selected_files_def)

lemma get_selected_count_eq:
  "get_selected_count st = length (filter (\<lambda>it. checkState it = Checked) (file_list st))"
  using fold_index_count [of "length (file_list st)" "file_list st" "\<lambda>it. checkState it = Checked"]
  by (simp add: get_selected_count_def)

lemma file_list_update_selected_count [simp]:
  "file_list (update_selected_count st) = file_list st"
  "current_directory (update_selected_count st) = current_directory st"
  "files_selected (update_selected_count st) = files_selected st"
  by (simp_all add: update_selected_count_def Let_def)

lemma emit_selection_changed_fields [simp]:
  "file_list (emit_selection_changed rt st) = file_list st"
  "current_directory (emit_selection_changed rt st) = current_directory st"
  "selected_label (emit_selection_changed rt st) = selected_label st"
  "files_selected (emit_selection_changed rt st) = files_selected st @ [get_selected_files rt st]"
  by (simp_all add: emit_selection_changed_def Let_def)

lemma get_selected_files_update_selected_count [simp]:
  "get_selected_files rt (update_selected_count st) = get_selected_files rt st"
  by (simp add: get_selected_files_eq)

lemma get_selected_count_emit [simp]:
  "get_selected_count (emit_selection_changed rt st) = get_selected_count st"
  by (simp add: get_selected_count_eq)


lemma setCheckState_current_directory:
  "current_directory (setCheckState rt i c st) = current_directory st"
  by (simp add: setCheckState_def on_item_changed_def)





lemma str_nat_0: "str_nat 0 = ''0''"
  by (simp add: str_nat.simps)

lemma selected_label_update_selected_count:
  "selected_label (update_selected_count st) =
     ''Selected: '' @ str_nat (get_selected_count st) @ '' file'' @
       (if get_selected_count st \<noteq> 1 then ''s'' else [])"
  by (simp add: update_selected_count_def Let_def)

lemma filter_checked_all [simp]:
  "filter (\<lambda>it. checkState it = Checked) (map (\<lambda>it. it\<lparr>checkState := Checked\<rparr>) xs) =
     map (\<lambda>it. it\<lparr>checkState := Checked\<rparr>) xs"
  by (induction xs) auto

lemma filter_checked_none [simp]:
  "filter (\<lambda>it. checkState it = Checked) (map (\<lambda>it. it\<lparr>checkState := Unchecked\<rparr>) xs) = []"
  by (induction xs) auto



text \<open>
  C5. \<open>get_selected_files\<close> returns, in the order of the list, the current directory
  joined with the text of each checked item, and nothing else. That list is the payload
  that \<open>_emit_selection_changed\<close> and \<open>_on_item_changed\<close> emit, and a click on the check box
  of an item emits the selection as it is after the click.
\<close>

theorem get_selected_files_checked_in_order:
  "get_selected_files rt st =
     map (\<lambda>it. path_join rt (current_directory st) (item_text it))
       (filter (\<lambda>it. checkState it = Checked) (file_list st)) \<and>
   files_selected (emit_selection_changed rt st) = files_selected st @ [get_selected_files rt st] \<and>
   files_selected (on_item_changed rt st) = files_selected st @ [get_selected_files rt st] \<and>
   (i < length (file_list st) \<and> user_checkable (file_list st ! i) \<longrightarrow>
      files_selected (toggle_item rt i st) =
        files_selected st @ [get_selected_files rt (toggle_item rt i st)] \<and>
      file_list (toggle_item rt i st) =
        (file_list st)[i := (file_list st ! i)
           \<lparr>checkState := (if checkState (file_list st ! i) = Checked then Unchecked else Checked)\<rparr>])"
proof -
  have a: "get_selected_files rt st =
     map (\<lambda>it. path_join rt (current_directory st) (item_text it))
       (filter (\<lambda>it. checkState it = Checked) (file_list st))"
    by (rule get_selected_files_eq)
  have b: "files_selected (emit_selection_changed rt st) = files_selected st @ [get_selected_files rt st]"
    by simp
  have c: "files_selected (on_item_changed rt st) = files_selected st @ [get_selected_files rt st]"
    by (simp add: on_item_changed_def)
  have d: "files_selected (toggle_item rt i st) =
        files_selected st @ [get_selected_files rt (toggle_item rt i st)] \<and>
      file_list (toggle_item rt i st) =
        (file_list st)[i := (file_list st ! i)
           \<lparr>checkState := (if checkState (file_list st ! i) = Checked then Unchecked else Checked)\<rparr>]"
    if "i < length (file_list st)" and "user_checkable (file_list st ! i)"
  proof -
    let ?c = "if checkState (file_list st ! i) = Checked then Unchecked else Checked"
    let ?st = "st\<lparr>file_list := (file_list st)[i := (file_list st ! i)\<lparr>checkState := ?c\<rparr>]\<rparr>"
    have ne: "checkState (file_list st ! i) \<noteq> ?c" by simp
    have t: "toggle_item rt i st = on_item_changed rt ?st"
      using that ne unfolding toggle_item_def setCheckState_def by (simp only: if_True if_False simp_thms)
    show ?thesis
      unfolding t by (simp add: on_item_changed_def get_selected_files_eq)
  qed
  from a b c d show ?thesis by blast
qed

theorem get_selected_files_witness:
  "files_selected (toggle_item (posix_runtime demo_disk write_ok) 1 demo_tab) =
     [[''/data/a.png'', ''/data/a.tiff'', ''/data/b.TIF'']] \<and>
   get_selected_files (posix_runtime demo_disk write_ok) demo_tab = [''/data/a.png'', ''/data/b.TIF'']"
proof -
  let ?rt = "posix_runtime demo_disk write_ok"
  have i: "1 < length (file_list demo_tab) \<and> user_checkable (file_list demo_tab ! 1)"
    by (simp add: demo_tab_def)
  have pj: "path_join ?rt = posix_join"
    by (simp add: posix_runtime_def)
  from get_selected_files_checked_in_order [where rt = ?rt and st = demo_tab and i = 1] i
  have a: "get_selected_files ?rt demo_tab =
       map (\<lambda>it. path_join ?rt (current_directory demo_tab) (item_text it))
         (filter (\<lambda>it. checkState it = Checked) (file_list demo_tab))"
    and b: "files_selected (toggle_item ?rt 1 demo_tab) =
       files_selected demo_tab @ [get_selected_files ?rt (toggle_item ?rt 1 demo_tab)]"
    and c: "file_list (toggle_item ?rt 1 demo_tab) =
        (file_list demo_tab)[1 := (file_list demo_tab ! 1)
           \<lparr>checkState := (if checkState (file_list demo_tab ! 1) = Checked then Unchecked else Checked)\<rparr>]"
    by blast+
  have d: "current_directory (toggle_item ?rt 1 demo_tab) = ''/data''"
    by (simp add: toggle_item_def setCheckState_current_directory demo_tab_def)
  have a': "get_selected_files ?rt demo_tab = [''/data/a.png'', ''/data/b.TIF'']"
    unfolding a pj by (simp add: demo_tab_def posix_join_def)
  have b': "get_selected_files ?rt (toggle_item ?rt 1 demo_tab) =
      [''/data/a.png'', ''/data/a.tiff'', ''/data/b.TIF'']"
    unfolding get_selected_files_eq c d pj by (simp add: demo_tab_def posix_join_def)
  show ?thesis
    using a' b b' by (simp add: demo_tab_def)
qed

lemma collect_files_eq:
  "collect_files rt dir extensions names files =
     files @ filter (\<lambda>f. isfile rt (path_join rt dir f) \<and>
                        lower rt (snd (splitext rt f)) \<in> set extensions) names"
  by (induction names arbitrary: files) (simp_all add: Let_def)

lemma add_items_eq:
  "add_items names items =
     items @ map (\<lambda>f. \<lparr>item_text = f, user_checkable = True, checkState = Unchecked\<rparr>) names"
  by (induction names arbitrary: items) simp_all

lemma refresh_file_list_listed:
  assumes "isdir rt (current_directory st)"
    and "listdir rt (current_directory st) = Inr names"
  shows "refresh_file_list rt st =
     (None, update_selected_count
        (st\<lparr>file_list :=
             map (\<lambda>f. \<lparr>item_text = f, user_checkable = True, checkState = Unchecked\<rparr>)
               (sort_key (lower rt)
                 (filter (\<lambda>f. isfile rt (path_join rt (current_directory st) f) \<and>
                              lower rt (snd (splitext rt f)) \<in> set (get_current_extensions st))
                    names))\<rparr>))"
proof -
  have ext: "get_current_extensions (st\<lparr>file_list := []\<rparr>) = get_current_extensions st"
    by (simp add: get_current_extensions_def)
  show ?thesis
    using assms by (simp add: refresh_file_list_def Let_def collect_files_eq add_items_eq ext)
qed

text \<open>
  The extension list of each filter: the entry of \<open>FILE_FORMATS\<close> at the current index of
  the combo box, and no extension when the index is outside the table.
\<close>

lemma get_current_extensions_table:
  "get_current_extensions st =
     (if format_combo st = 0 then [''.tif'', ''.tiff'']
      else if format_combo st = 1 then [''.png'']
      else if format_combo st = 2 then [''.jpg'', ''.jpeg'']
      else if format_combo st = 3 then [''.nd2'']
      else if format_combo st = 4 then [''.tif'', ''.tiff'', ''.png'', ''.jpg'', ''.jpeg'', ''.nd2'']
      else [])"
proof -
  consider "format_combo st = 0" | "format_combo st = 1" | "format_combo st = 2"
    | "format_combo st = 3" | "format_combo st = 4"
    | "format_combo st < 0 \<or> 4 < format_combo st"
    by arith
  then show ?thesis
    by cases (auto simp: get_current_extensions_def FILE_FORMATS_def)
qed

text \<open>
  C1. When the current directory is a directory and listing it yields \<open>names\<close>, a refresh
  returns normally and the list shows the names that are regular files in the current
  directory and whose lowercased extension is in the extension list of the current
  filter: \<open>.tif\<close> and \<open>.tiff\<close> for the TIFF filter (index 0), \<open>.png\<close> for PNG (1), \<open>.jpg\<close> and
  \<open>.jpeg\<close> for JPEG (2), \<open>.nd2\<close> for ND2 (3), all six for All Supported (4). It shows
  exactly those (as a set and with their multiplicities), sorted by their lowercased
  names, ties in the order of the listing, and every item unchecked.
\<close>

theorem refresh_file_list_filtered_sorted:
  assumes "isdir rt (current_directory st)"
    and "listdir rt (current_directory st) = Inr names"
  shows "let extensions =
           (if format_combo st = 0 then [''.tif'', ''.tiff'']
            else if format_combo st = 1 then [''.png'']
            else if format_combo st = 2 then [''.jpg'', ''.jpeg'']
            else if format_combo st = 3 then [''.nd2'']
            else if format_combo st = 4
              then [''.tif'', ''.tiff'', ''.png'', ''.jpg'', ''.jpeg'', ''.nd2'']
            else []);
             keep = (\<lambda>f. isfile rt (path_join rt (current_directory st) f) \<and>
                          lower rt (snd (splitext rt f)) \<in> set extensions);
             shown = map item_text (file_list (snd (refresh_file_list rt st)))
         in shown = sort_key (lower rt) (filter keep names) \<and>
            fst (refresh_file_list rt st) = None \<and>
            mset shown = mset (filter keep names) \<and>
            set shown = {f \<in> set names. keep f} \<and>
            sorted (map (lower rt) shown) \<and>
            list_all (\<lambda>it. checkState it = Unchecked)
              (file_list (snd (refresh_file_list rt st)))"
proof -
  let ?exts = "if format_combo st = 0 then [''.tif'', ''.tiff'']
            else if format_combo st = 1 then [''.png'']
            else if format_combo st = 2 then [''.jpg'', ''.jpeg'']
            else if format_combo st = 3 then [''.nd2'']
            else if format_combo st = 4
              then [''.tif'', ''.tiff'', ''.png'', ''.jpg'', ''.jpeg'', ''.nd2'']
            else []"
  let ?keep = "\<lambda>f. isfile rt (path_join rt (current_directory st) f) \<and>
                      lower rt (snd (splitext rt f)) \<in> set ?exts"
  let ?shown = "map item_text (file_list (snd (refresh_file_list rt st)))"
  have ext: "get_current_extensions st = ?exts"
    by (rule get_current_extensions_table)
  note listed = refresh_file_list_listed [OF assms, unfolded ext]
  have shown: "?shown = sort_key (lower rt) (filter ?keep names)"
    unfolding listed by (simp add: comp_def)
  have r: "fst (refresh_file_list rt st) = None"
    unfolding listed by simp
  have u: "list_all (\<lambda>it. checkState it = Unchecked) (file_list (snd (refresh_file_list rt st)))"
    unfolding listed by (simp add: list_all_iff)
  have m: "mset ?shown = mset (filter ?keep names)"
    unfolding shown by simp
  have s: "set ?shown = {f \<in> set names. ?keep f}"
    unfolding shown by simp
  have o: "sorted (map (lower rt) ?shown)"
    unfolding shown by (rule sorted_sort_key)
  from shown r m s o u show ?thesis
    unfolding Let_def by (intro conjI)
qed

theorem refresh_file_list_filtered_sorted_witness:
  "map item_text (file_list (snd (refresh_file_list (posix_runtime demo_disk write_ok)
      (demo_tab\<lparr>format_combo := 0\<rparr>)))) = [''a.tiff'', ''b.TIF''] \<and>
   map item_text (file_list (snd (refresh_file_list (posix_runtime demo_disk write_ok)
      (demo_tab\<lparr>format_combo := 1\<rparr>)))) = [''a.png''] \<and>
   map item_text (file_list (snd (refresh_file_list (posix_runtime demo_disk write_ok)
      (demo_tab\<lparr>format_combo := 2\<rparr>)))) = [''C.jpeg'', ''D.JPG''] \<and>
   map item_text (file_list (snd (refresh_file_list (posix_runtime demo_disk write_ok)
      (demo_tab\<lparr>format_combo := 3\<rparr>)))) = [''e.nd2''] \<and>
   map item_text (file_list (snd (refresh_file_list (posix_runtime demo_disk write_ok)
      (demo_tab\<lparr>format_combo := 4\<rparr>)))) =
     [''a.png'', ''a.tiff'', ''b.TIF'', ''C.jpeg'', ''D.JPG'', ''e.nd2'']"
proof -
  let ?rt = "posix_runtime demo_disk write_ok"
  let ?names = "[''b.TIF'', ''notes.txt'', ''a.png'', ''sub.png'', ''C.jpeg'', ''.png'',
                 ''a.tiff'', ''e.nd2'', ''D.JPG'', ''scan.tif.bak'']"
  have h1: "isdir ?rt (current_directory (demo_tab\<lparr>format_combo := i\<rparr>))" for i
    by (simp add: posix_runtime_def demo_disk_def demo_tab_def)
  have h2: "listdir ?rt (current_directory (demo_tab\<lparr>format_combo := i\<rparr>)) = Inr ?names" for i
    by (simp add: posix_runtime_def demo_disk_def demo_tab_def)
  note t = refresh_file_list_filtered_sorted [OF h1 h2, unfolded Let_def, THEN conjunct1]
  have a0: "map item_text (file_list (snd (refresh_file_list ?rt (demo_tab\<lparr>format_combo := 0\<rparr>)))) =
      [''a.tiff'', ''b.TIF'']"
    by (rule trans [OF t [of 0]]) code_simp
  have a1: "map item_text (file_list (snd (refresh_file_list ?rt (demo_tab\<lparr>format_combo := 1\<rparr>)))) =
      [''a.png'']"
    by (rule trans [OF t [of 1]]) code_simp
  have a2: "map item_text (file_list (snd (refresh_file_list ?rt (demo_tab\<lparr>format_combo := 2\<rparr>)))) =
      [''C.jpeg'', ''D.JPG'']"
    by (rule trans [OF t [of 2]]) code_simp
  have a3: "map item_text (file_list (snd (refresh_file_list ?rt (demo_tab\<lparr>format_combo := 3\<rparr>)))) =
      [''e.nd2'']"
    by (rule trans [OF t [of 3]]) code_simp
  have a4: "map item_text (file_list (snd (refresh_file_list ?rt (demo_tab\<lparr>format_combo := 4\<rparr>)))) =
      [''a.png'', ''a.tiff'', ''b.TIF'', ''C.jpeg'', ''D.JPG'', ''e.nd2'']"
    by (rule trans [OF t [of 4]]) code_simp
  from a0 a1 a2 a3 a4 show ?thesis by (intro conjI)
qed

text \<open>
  C8. When the current directory is not a directory, or listing it raises
  \<open>PermissionError\<close>, a refresh returns normally with an empty list; it prints nothing,
  attempts no save and emits no signal.
\<close>

theorem refresh_file_list_invalid_directory:
  assumes "\<not> isdir rt (current_directory st) \<or>
           (\<exists>m. listdir rt (current_directory st) = Inl (PermissionError m))"
  shows "fst (refresh_file_list rt st) = None \<and>
         file_list (snd (refresh_file_list rt st)) = [] \<and>
         tab_io (snd (refresh_file_list rt st)) = tab_io st \<and>
         files_selected (snd (refresh_file_list rt st)) = files_selected st"
  using assms
  by (auto simp: refresh_file_list_def Let_def update_selected_count_def)

theorem refresh_file_list_invalid_directory_witness:
  "refresh_file_list (posix_runtime demo_disk write_ok) (demo_tab\<lparr>current_directory := ''/gone''\<rparr>) =
     (None, demo_tab\<lparr>current_directory := ''/gone'', file_list := []\<rparr>) \<and>
   fst (refresh_file_list (posix_runtime demo_disk write_ok) (demo_tab\<lparr>current_directory := ''/locked''\<rparr>)) = None \<and>
   file_list (snd (refresh_file_list (posix_runtime demo_disk write_ok)
      (demo_tab\<lparr>current_directory := ''/locked''\<rparr>))) = []"
proof -
  let ?rt = "posix_runtime demo_disk write_ok"
  let ?g = "demo_tab\<lparr>current_directory := ''/gone''\<rparr>"
  let ?l = "demo_tab\<lparr>current_directory := ''/locked''\<rparr>"
  have hg: "\<not> isdir ?rt (current_directory ?g) \<or>
           (\<exists>m. listdir ?rt (current_directory ?g) = Inl (PermissionError m))"
    by (simp add: posix_runtime_def demo_disk_def)
  have hl: "\<not> isdir ?rt (current_directory ?l) \<or>
           (\<exists>m. listdir ?rt (current_directory ?l) = Inl (PermissionError m))"
    by (simp add: posix_runtime_def demo_disk_def)
  have g: "refresh_file_list ?rt ?g = (None, ?g\<lparr>file_list := []\<rparr>)"
    by (simp add: refresh_file_list_def posix_runtime_def demo_disk_def)
  from refresh_file_list_invalid_directory [OF hg] refresh_file_list_invalid_directory [OF hl] g
  show ?thesis by simp
qed

lemma refresh_file_list_unchecked:
  "list_all (\<lambda>it. checkState it = Unchecked) (file_list (snd (refresh_file_list rt st)))"
  by (auto simp: refresh_file_list_def Let_def add_items_eq list_all_iff update_selected_count_def
      split: sum.splits)

lemma unchecked_no_selection:
  assumes "list_all (\<lambda>it. checkState it = Unchecked) (file_list st)"
  shows "get_selected_files rt st = [] \<and> get_selected_count st = 0"
proof -
  from assms have "filter (\<lambda>it. checkState it = Checked) (file_list st) = []"
    by (induction "file_list st" arbitrary: st) (auto simp: list_all_iff filter_empty_conv)
  then show ?thesis
    by (simp add: get_selected_files_eq get_selected_count_eq)
qed



text \<open>
  What a change of the filter or of the directory does to the selection: whatever the
  states of the items were and whether the refresh returned or raised, every item of the
  list is unchecked afterwards, \<open>get_selected_files\<close> is empty and \<open>_get_selected_count\<close>
  returns 0. For the directory, the dialog returned a directory and storing it as the
  last directory did not raise.
\<close>

lemma change_resets_checked_items:
  "(case currentIndexChanged rt index st of (r, st') \<Rightarrow>
      format_combo st' = index \<and>
      list_all (\<lambda>it. checkState it = Unchecked) (file_list st') \<and>
      get_selected_files rt st' = [] \<and> get_selected_count st' = 0) \<and>
   (directory \<noteq> [] \<and> fst (set_last_directory rt directory (settings st) (tab_io st)) = None \<longrightarrow>
      (case on_browse_clicked rt directory st of (r, st') \<Rightarrow>
         current_directory st' = directory \<and>
         list_all (\<lambda>it. checkState it = Unchecked) (file_list st') \<and>
         get_selected_files rt st' = [] \<and> get_selected_count st' = 0))"
proof -
  have fc: "format_combo (snd (refresh_file_list rt s)) = format_combo s"
    and cd: "current_directory (snd (refresh_file_list rt s)) = current_directory s" for s
    by (auto simp: refresh_file_list_def Let_def update_selected_count_def split: sum.splits)
  have a: "case currentIndexChanged rt index st of (r, st') \<Rightarrow>
      format_combo st' = index \<and>
      list_all (\<lambda>it. checkState it = Unchecked) (file_list st') \<and>
      get_selected_files rt st' = [] \<and> get_selected_count st' = 0"
    using refresh_file_list_unchecked [of rt "st\<lparr>format_combo := index\<rparr>"]
      unchecked_no_selection [of "snd (refresh_file_list rt (st\<lparr>format_combo := index\<rparr>))" rt]
      fc [of "st\<lparr>format_combo := index\<rparr>"]
    by (auto simp: currentIndexChanged_def on_format_changed_def split: prod.splits)
  have b: "case on_browse_clicked rt directory st of (r, st') \<Rightarrow>
         current_directory st' = directory \<and>
         list_all (\<lambda>it. checkState it = Unchecked) (file_list st') \<and>
         get_selected_files rt st' = [] \<and> get_selected_count st' = 0"
    if d: "directory \<noteq> []"
      and ok: "fst (set_last_directory rt directory (settings st) (tab_io st)) = None"
  proof -
    obtain r s' io' where sl: "set_last_directory rt directory (settings st) (tab_io st) = (r, s', io')"
      by (cases "set_last_directory rt directory (settings st) (tab_io st)") auto
    with ok have r: "r = None" by simp
    let ?st2 = "update_directory_display
                  (st\<lparr>current_directory := directory, settings := s', tab_io := io'\<rparr>)"
    have ob: "on_browse_clicked rt directory st = refresh_file_list rt ?st2"
      using d sl r by (simp add: on_browse_clicked_def Let_def)
    have cd2: "current_directory ?st2 = directory"
      by (simp add: update_directory_display_def)
    show ?thesis
      using refresh_file_list_unchecked [of rt ?st2]
        unchecked_no_selection [of "snd (refresh_file_list rt ?st2)" rt]
        cd [of ?st2] cd2
      by (auto simp: ob split: prod.splits)
  qed
  from a b show ?thesis by simp
qed

text \<open>
  The label: a refresh that finds the current directory to be a directory and returns
  has written the count into the label, which then reads 0 files; so has a refresh whose
  listing raised \<open>PermissionError\<close>. When the current directory is not a directory the
  method returns before that, and the label keeps its text.
\<close>

lemma refresh_file_list_label:
  assumes "isdir rt (current_directory st)" and "fst (refresh_file_list rt st) = None"
  shows "selected_label (snd (refresh_file_list rt st)) = ''Selected: 0 files''"
proof -
  have z: "selected_label (update_selected_count s) = ''Selected: 0 files''"
    if "list_all (\<lambda>it. checkState it = Unchecked) (file_list s)" for s
    using unchecked_no_selection [OF that, of rt]
    by (simp add: selected_label_update_selected_count str_nat_0)
  show ?thesis
    using assms
    by (auto simp: refresh_file_list_def Let_def add_items_eq z list_all_iff split: sum.splits if_splits)
qed

lemma refresh_file_list_label_not_directory:
  "\<not> isdir rt (current_directory st) \<Longrightarrow>
     selected_label (snd (refresh_file_list rt st)) = selected_label st"
  by (simp add: refresh_file_list_def)

text \<open>
  C6. The code departs from the claim. The claim: after a change of the filter the
  selection is empty and the selection count is 0, always. The code: the user browsed to
  \<open>/gone\<close> and checked two of its three files, so the label reads 2 files; the directory
  is then removed from the disk. A change of the filter to PNG empties the list and
  returns at the test of \<open>os.path.isdir\<close>, before \<open>_update_selected_count\<close>: no item is
  checked and the selection is empty, and the label still reads 2 files. On the path
  where the listing raises \<open>PermissionError\<close> the same change writes 0 files.
\<close>

theorem filter_change_leaves_label_stale:
  "current_directory removed_directory_tab = ''/gone'' \<and>
   map item_text (file_list removed_directory_tab) = [''a.png'', ''a.tiff'', ''b.TIF''] \<and>
   get_selected_files (posix_runtime demo_disk write_ok) removed_directory_tab =
     [''/gone/a.png'', ''/gone/b.TIF''] \<and>
   selected_label removed_directory_tab = ''Selected: 2 files'' \<and>
   \<not> isdir (posix_runtime demo_disk write_ok) ''/gone'' \<and>
   fst (currentIndexChanged (posix_runtime demo_disk write_ok) 1 removed_directory_tab) = None \<and>
   file_list (snd (currentIndexChanged (posix_runtime demo_disk write_ok) 1 removed_directory_tab)) = [] \<and>
   get_selected_count
     (snd (currentIndexChanged (posix_runtime demo_disk write_ok) 1 removed_directory_tab)) = 0 \<and>
   selected_label
     (snd (currentIndexChanged (posix_runtime demo_disk write_ok) 1 removed_directory_tab)) =
     ''Selected: 2 files'' \<and>
   selected_label
     (snd (currentIndexChanged (posix_runtime demo_disk write_ok) 1
        (removed_directory_tab\<lparr>current_directory := ''/locked''\<rparr>))) = ''Selected: 0 files''"
  by code_simp

end
